theory Spec2Isabelle
  imports Main "HOL-Library.Sublist"
begin

section \<open>Python values, classes and errors\<close>

text \<open>
  A Python class as the code of \<^verbatim>\<open>polymorphic_tree/models.py\<close> looks at it: its name, its
  linearised ancestors (\<^verbatim>\<open>C.mro()[1:]\<close>, nearest first), whether it is an instance of the
  metaclass \<^verbatim>\<open>PolymorphicMPTTModelBase\<close>, the value of \<^verbatim>\<open>can_have_children\<close> in its own
  class body (\<open>None\<close> when the body does not assign it) and its \<^verbatim>\<open>_meta.verbose_name\<close>.
  Two classes are the same object (\<^verbatim>\<open>is\<close>) when they are equal.
\<close>

datatype pyclass = PyClass
  (cls_name: string)
  (cls_ancestors: "pyclass list")
  (by_composite_metaclass: bool)
  (own_can_have_children: "bool option")
  (verbose_name: string)

definition mro :: "pyclass \<Rightarrow> pyclass list" where
  "mro C = C # cls_ancestors C"

definition issubclass :: "pyclass \<Rightarrow> pyclass \<Rightarrow> bool" where
  "issubclass C B = List.member (mro C) B"

text \<open>The classes of Django, django-mptt and django-polymorphic the base node class inherits from.\<close>

definition py_object :: pyclass where
  "py_object = PyClass ''object'' [] False None ''''"

definition django_Model :: pyclass where
  "django_Model = PyClass ''Model'' [py_object] False None ''''"

definition MPTTModel :: pyclass where
  "MPTTModel = PyClass ''MPTTModel'' [django_Model, py_object] False None ''''"

definition PolymorphicModel :: pyclass where
  "PolymorphicModel = PyClass ''PolymorphicModel'' [django_Model, py_object] False None ''''"

text \<open>
  \<^verbatim>\<open>class PolymorphicMPTTModel(MPTTModel, PolymorphicModel)\<close>: the abstract base of all
  nodes, made by the composite metaclass, with the class attribute
  \<^verbatim>\<open>can_have_children = True\<close>.
\<close>

definition PolymorphicMPTTModel :: pyclass where
  "PolymorphicMPTTModel =
     PyClass ''PolymorphicMPTTModel'' [MPTTModel, PolymorphicModel, django_Model, py_object]
       True (Some True) ''''"

text \<open>
  A model instance: its class (\<^verbatim>\<open>type(obj)\<close>), its primary key and the stored
  \<^verbatim>\<open>polymorphic_ctype\<close> (the content-type id of the variant the row was saved as).
\<close>

record model_instance =
  inst_class :: pyclass
  pk :: int
  polymorphic_ctype :: int

text \<open>The values a parent reference can hold when it reaches the validation.\<close>

datatype pyvalue = PyNone | PyInt int | PyStr string | PyInstance model_instance

text \<open>Python truth value: \<^verbatim>\<open>None\<close>, \<^verbatim>\<open>0\<close> and the empty string are false; a model
  instance defines neither \<^verbatim>\<open>__nonzero__\<close> nor \<^verbatim>\<open>__len__\<close> and is true.\<close>

fun truthy :: "pyvalue \<Rightarrow> bool" where
  "truthy PyNone = False"
| "truthy (PyInt n) = (n \<noteq> 0)"
| "truthy (PyStr s) = (s \<noteq> [])"
| "truthy (PyInstance obj) = True"

datatype error =
    ValidationError string
  | ValueError string
  | AttributeError string
  | DoesNotExist string
  | Http404 string
  | PermissionDenied string
  | NotImplementedError string
  | KeyError string
  | IndexError string
  | TypeError string

text \<open>
  The tables of the database: for a model class, the rows of its table as a map from the
  primary key to the stored \<^verbatim>\<open>polymorphic_ctype\<close>.
\<close>

type_synonym database = "pyclass \<Rightarrow> int \<rightharpoonup> int"

text \<open>
  \<^verbatim>\<open>Model.objects.non_polymorphic()...get(pk=n)\<close>, the query mode of django-polymorphic
  that does not downcast: the row comes back as an instance of the class that was queried,
  whatever variant it was saved as. A missing row raises \<^verbatim>\<open>DoesNotExist\<close>.
\<close>

definition non_polymorphic_get :: "database \<Rightarrow> pyclass \<Rightarrow> int \<Rightarrow> error + model_instance" where
  "non_polymorphic_get db Model n =
     (case db Model n of
        None \<Rightarrow> Inl (DoesNotExist (cls_name Model @ '' matching query does not exist.''))
      | Some ct \<Rightarrow> Inr \<lparr>inst_class = Model, pk = n, polymorphic_ctype = ct\<rparr>)"

text \<open>
  Reading \<^verbatim>\<open>obj.can_have_children\<close>: the attribute is a class attribute, found in the first
  class of \<^verbatim>\<open>type(obj).mro()\<close> whose body assigns it.
\<close>

fun lookup_can_have_children :: "pyclass list \<Rightarrow> bool option" where
  "lookup_can_have_children [] = None"
| "lookup_can_have_children (C # Cs) =
     (case own_can_have_children C of
        Some b \<Rightarrow> Some b
      | None \<Rightarrow> lookup_can_have_children Cs)"

definition class_can_have_children :: "pyclass \<Rightarrow> bool option" where
  "class_can_have_children C = lookup_can_have_children (mro C)"

definition can_have_children :: "model_instance \<Rightarrow> error + bool" where
  "can_have_children obj =
     (case class_can_have_children (inst_class obj) of
        None \<Rightarrow> Inl (AttributeError ''can_have_children'')
      | Some b \<Rightarrow> Inr b)"

definition isinstance_PolymorphicMPTTModel :: "model_instance \<Rightarrow> bool" where
  "isinstance_PolymorphicMPTTModel obj = issubclass (inst_class obj) PolymorphicMPTTModel"

text \<open>The two \<^verbatim>\<open>isinstance\<close> tests of the validation, on a value.\<close>

fun isinstance_int :: "pyvalue \<Rightarrow> bool" where
  "isinstance_int (PyInt n) = True"
| "isinstance_int _ = False"

fun isinstance_node :: "pyvalue \<Rightarrow> bool" where
  "isinstance_node (PyInstance obj) = isinstance_PolymorphicMPTTModel obj"
| "isinstance_node _ = False"

section \<open>The identity resolver\<close>

text \<open>
  \<^verbatim>\<open>_get_base_polymorphic_model\<close>: the loop over \<^verbatim>\<open>reversed(ChildModel.mro())\<close>. Each class
  visited is printed (the \<^verbatim>\<open>print Model\<close> statement), so the loop returns what it printed
  together with its result.
\<close>

fun base_model_loop :: "pyclass list \<Rightarrow> pyclass list \<times> pyclass option" where
  "base_model_loop [] = ([], None)"
| "base_model_loop (Model # rest) =
     (if by_composite_metaclass Model \<and> Model \<noteq> PolymorphicMPTTModel
      then ([Model], Some Model)
      else (case base_model_loop rest of (out, r) \<Rightarrow> (Model # out, r)))"

definition get_base_polymorphic_model :: "pyclass \<Rightarrow> pyclass option" where
  "get_base_polymorphic_model ChildModel = snd (base_model_loop (rev (mro ChildModel)))"

definition get_base_polymorphic_model_printed :: "pyclass \<Rightarrow> pyclass list" where
  "get_base_polymorphic_model_printed ChildModel = fst (base_model_loop (rev (mro ChildModel)))"

text \<open>The contract in the words of the specification: the first class, from the most basic
  one on, that the composite metaclass made and that is not the abstract root.\<close>

definition first_composite_base :: "pyclass \<Rightarrow> pyclass option" where
  "first_composite_base ChildModel =
     find (\<lambda>Model. by_composite_metaclass Model \<and> Model \<noteq> PolymorphicMPTTModel)
       (rev (mro ChildModel))"

section \<open>The constrained parent reference\<close>

definition no_children_message :: string where
  "no_children_message = ''The selected node cannot have child nodes.''"

text \<open>
  \<^verbatim>\<open>RestrictedTreeForeignKey._validate_parent\<close>. A return is \<open>Inr ()\<close>, a raise is \<open>Inl\<close>.
  On an integer the base model is resolved from the class of the instance being saved;
  \<^verbatim>\<open>None.objects\<close> would be an \<^verbatim>\<open>AttributeError\<close>.
\<close>

definition check_can_have_children :: "model_instance \<Rightarrow> error + unit" where
  "check_can_have_children parent =
     (case can_have_children parent of
        Inl e \<Rightarrow> Inl e
      | Inr b \<Rightarrow> if b then Inr () else Inl (ValidationError no_children_message))"

fun validate_parent :: "database \<Rightarrow> pyvalue \<Rightarrow> model_instance \<Rightarrow> error + unit" where
  "validate_parent db parent model_instance =
     (if \<not> truthy parent then Inr ()
      else case parent of
        PyInt n \<Rightarrow>
          (case get_base_polymorphic_model (inst_class model_instance) of
             None \<Rightarrow> Inl (AttributeError ''objects'')
           | Some base_model \<Rightarrow>
               (case non_polymorphic_get db base_model n of
                  Inl e \<Rightarrow> Inl e
                | Inr parent' \<Rightarrow> check_can_have_children parent'))
      | PyInstance obj \<Rightarrow>
          if isinstance_PolymorphicMPTTModel obj then check_can_have_children obj
          else Inl (ValueError ''Unknown parent value'')
      | _ \<Rightarrow> Inl (ValueError ''Unknown parent value''))"

text \<open>
  \<^verbatim>\<open>RestrictedTreeForeignKey.clean\<close>. The clean of the wrapped \<^verbatim>\<open>TreeForeignKey\<close> is
  Django's and is a parameter: it returns the cleaned value or raises.
\<close>

definition clean ::
  "(pyvalue \<Rightarrow> model_instance \<Rightarrow> error + pyvalue) \<Rightarrow> database \<Rightarrow> pyvalue \<Rightarrow> model_instance \<Rightarrow> error + pyvalue"
where
  "clean super_clean db v model_instance =
     (case super_clean v model_instance of
        Inl e \<Rightarrow> Inl e
      | Inr v' \<Rightarrow>
          (case validate_parent db v' model_instance of
             Inl e \<Rightarrow> Inl e
           | Inr u \<Rightarrow> Inr v'))"

section \<open>The composite metaclass\<close>

text \<open>The options (\<^verbatim>\<open>_meta\<close>) of a model class that the metaclass reads and writes;
  \<open>abstract\<close> is \<open>None\<close> when the attribute is missing (\<^verbatim>\<open>getattr(meta, 'abstract', False)\<close>).\<close>

record options =
  app_label :: string
  db_table :: string
  abstract :: "bool option"

definition table_name_template :: "string \<Rightarrow> string \<Rightarrow> string" where
  "table_name_template app model_name = ''nodetype_'' @ app @ ''_'' @ model_name"

text \<open>The body of the \<^verbatim>\<open>else\<close> branch of \<^verbatim>\<open>__new__\<close>: the update of the table name.\<close>

definition update_table_name :: "options \<Rightarrow> options" where
  "update_table_name meta =
     (if prefix (app_label meta @ ''_'') (db_table meta)
         \<and> \<not> (case abstract meta of None \<Rightarrow> False | Some b \<Rightarrow> b)
      then
        let model_name = drop (length (app_label meta) + 1) (db_table meta)
        in meta\<lparr>db_table := table_name_template (app_label meta) model_name\<rparr>
      else meta)"

text \<open>
  \<^verbatim>\<open>PolymorphicMPTTModelBase.__new__\<close>, on the bases of the class being made and the options
  that the metaclasses of django-mptt and django-polymorphic gave it.
\<close>

definition PolymorphicMPTTModelBase_new :: "pyclass list \<Rightarrow> options \<Rightarrow> options" where
  "PolymorphicMPTTModelBase_new bases meta =
     (if \<not> list_ex by_composite_metaclass bases then meta
      else update_table_name meta)"

text \<open>The table name that Django's \<^verbatim>\<open>Options\<close> assigns when the class declares none: the
  \<^verbatim>\<open>{app}_{modelname}\<close> of the specification. The metaclass never computes it; it is here
  to say which names are defaults.\<close>

definition default_db_table :: "string \<Rightarrow> string \<Rightarrow> string" where
  "default_db_table app model_name = app @ ''_'' @ model_name"

section \<open>The administrative router\<close>

text \<open>
  A content type of Django's registry: its natural key and the model class it stands for
  (\<^verbatim>\<open>ct.model_class()\<close>, \<open>None\<close> once the model has been removed from the code).
\<close>

record content_type =
  ct_app_label :: string
  ct_model :: string
  model_class :: "pyclass option"

text \<open>
  What the router asks of its collaborators: the rows of the table of content types, the
  id of the content type of a model (\<^verbatim>\<open>ContentType.objects.get_for_model(model).id\<close>), the
  tables, and the builtin \<^verbatim>\<open>int()\<close> on the text of a query parameter (\<open>None\<close> where it
  raises \<^verbatim>\<open>ValueError\<close>).
\<close>

record site =
  content_types :: "int \<rightharpoonup> content_type"
  get_for_model :: "pyclass \<Rightarrow> int"
  tables :: database
  int_of_text :: "string \<rightharpoonup> int"

text \<open>
  \<^verbatim>\<open>ContentType.objects.get_for_id\<close> as it is in the Django releases the module can be
  imported on (up to 1.5: it imports \<^verbatim>\<open>django.conf.urls.defaults\<close>). A missing row raises
  \<^verbatim>\<open>DoesNotExist\<close>. A row that is found is put in the cache under a key read from
  \<^verbatim>\<open>ct.model_class()._meta\<close>, so a row whose model class is gone raises
  \<^verbatim>\<open>AttributeError\<close> there.
\<close>

definition get_for_id :: "site \<Rightarrow> int \<Rightarrow> error + content_type" where
  "get_for_id st ct_id =
     (case content_types st ct_id of
        None \<Rightarrow> Inl (DoesNotExist ''ContentType matching query does not exist.'')
      | Some ct \<Rightarrow>
          (case model_class ct of
             None \<Rightarrow> Inl (AttributeError ''NoneType object has no attribute _meta'')
           | Some model \<Rightarrow> Inr ct))"

record request =
  request_method :: string
  GET :: "string \<rightharpoonup> string"
  POST :: "string \<rightharpoonup> string"
  QUERY_STRING :: string

text \<open>A sub-admin instance: its name and the paths its own URL table resolves, each to
  the name of a view.\<close>

record child_admin =
  admin_name :: string
  admin_urls :: "string \<rightharpoonup> string"

record parent_admin =
  admin_model :: pyclass
  base_model :: pyclass
  initialized_child_models :: "(pyclass \<times> child_admin) list option"

text \<open>The \<^verbatim>\<open>add_type_form\<close>: a form with the one required choice field \<^verbatim>\<open>ct_id\<close>.\<close>

record choice_form =
  form_data :: "(string \<rightharpoonup> string) option"
  form_initial :: int
  form_choices :: "(int \<times> string) list"

text \<open>A call of a view of the real admin, which answers the request from there on.\<close>

datatype view_call =
    AddView
  | ChangeView int
  | DeleteView int
  | CustomView string

datatype response =
    HttpResponseRedirect string
  | AddTypeFormPage choice_form
  | RealAdminView child_admin view_call

text \<open>Decimal text of an integer, as \<^verbatim>\<open>'{0}'.format(n)\<close> writes it.\<close>

fun str_nat :: "nat \<Rightarrow> string" where
  "str_nat n =
     (if n < 10 then [''0123456789'' ! n]
      else str_nat (n div 10) @ [''0123456789'' ! (n mod 10)])"

declare str_nat.simps [simp del]

definition str_int :: "int \<Rightarrow> string" where
  "str_int i = (if i < 0 then ''-'' @ str_nat (nat (- i)) else str_nat (nat i))"

definition quote :: string where
  "quote = [CHR 0x27]"

definition get_admin_for_model :: "parent_admin \<Rightarrow> pyclass \<Rightarrow> error + child_admin" where
  "get_admin_for_model adm model =
     (case initialized_child_models adm of
        None \<Rightarrow> Inl (NotImplementedError ''Implement get_admin_for_model() or child_models'')
      | Some registry \<Rightarrow>
          (case map_of registry model of
             None \<Rightarrow> Inl (KeyError (cls_name model))
           | Some a \<Rightarrow> Inr a))"

definition get_child_model_classes :: "parent_admin \<Rightarrow> error + pyclass list" where
  "get_child_model_classes adm =
     (case initialized_child_models adm of
        None \<Rightarrow> Inl (NotImplementedError ''Implement get_child_model_classes() or child_models'')
      | Some registry \<Rightarrow> Inr (map fst registry))"

definition get_child_type_choices :: "site \<Rightarrow> parent_admin \<Rightarrow> error + (int \<times> string) list" where
  "get_child_type_choices st adm =
     (case get_child_model_classes adm of
        Inl e \<Rightarrow> Inl e
      | Inr models \<Rightarrow> Inr (map (\<lambda>model. (get_for_model st model, verbose_name model)) models))"

definition get_real_admin_by_ct :: "site \<Rightarrow> parent_admin \<Rightarrow> int \<Rightarrow> error + child_admin" where
  "get_real_admin_by_ct st adm ct_id =
     (case get_for_id st ct_id of
        Inl (DoesNotExist msg) \<Rightarrow> Inl (Http404 msg)
      | Inl e \<Rightarrow> Inl e
      | Inr ct \<Rightarrow>
          (case model_class ct of
             None \<Rightarrow>
               Inl (Http404 (''No model found for '' @ quote @ ct_app_label ct @ ''.''
                      @ ct_model ct @ quote @ ''.''))
           | Some real_class \<Rightarrow>
               if \<not> issubclass real_class (base_model adm)
               then Inl (PermissionDenied
                      (''Invalid model '' @ quote @ ct_app_label ct @ ''.'' @ ct_model ct @ quote
                       @ '', must derive from '' @ cls_name (base_model adm) @ ''.''))
               else get_admin_for_model adm real_class))"

definition get_real_admin :: "site \<Rightarrow> parent_admin \<Rightarrow> int \<Rightarrow> error + child_admin" where
  "get_real_admin st adm object_id =
     (case tables st (admin_model adm) object_id of
        None \<Rightarrow>
          Inl (DoesNotExist (cls_name (admin_model adm) @ '' matching query does not exist.''))
      | Some ct_id \<Rightarrow> get_real_admin_by_ct st adm ct_id)"

text \<open>\<^verbatim>\<open>int(request.GET.get('ct_id', 0))\<close>\<close>

definition request_ct_id :: "site \<Rightarrow> request \<Rightarrow> error + int" where
  "request_ct_id st req =
     (case GET req ''ct_id'' of
        None \<Rightarrow> Inr 0
      | Some text \<Rightarrow>
          (case int_of_text st text of
             None \<Rightarrow> Inl (ValueError ''invalid literal for int() with base 10'')
           | Some n \<Rightarrow> Inr n))"

text \<open>
  Validation of the choice form, as Django's required \<^verbatim>\<open>ChoiceField\<close> does it: the form
  is valid when it is bound to data whose \<^verbatim>\<open>ct_id\<close> is the text of the id of one of the
  choices; the cleaned value is that text.
\<close>

definition cleaned_ct_id :: "choice_form \<Rightarrow> string option" where
  "cleaned_ct_id form =
     (case form_data form of
        None \<Rightarrow> None
      | Some d \<Rightarrow>
          (case d ''ct_id'' of
             None \<Rightarrow> None
           | Some v \<Rightarrow>
               if v \<noteq> [] \<and> List.member (map (\<lambda>(k, label). str_int k) (form_choices form)) v
               then Some v else None))"

definition is_valid :: "choice_form \<Rightarrow> bool" where
  "is_valid form = (cleaned_ct_id form \<noteq> None)"

text \<open>The query string that a redirect carries over.\<close>

definition extra_qs :: "request \<Rightarrow> string" where
  "extra_qs req = (if QUERY_STRING req \<noteq> [] then ''&'' @ QUERY_STRING req else [])"

text \<open>The form of \<^verbatim>\<open>add_type_view\<close>: bound to the posted data on a \<^verbatim>\<open>POST\<close>, with the
  first choice as initial value and the choices assigned to its field.\<close>

definition add_type_form :: "request \<Rightarrow> int \<Rightarrow> (int \<times> string) list \<Rightarrow> choice_form" where
  "add_type_form req first_id choices =
     \<lparr>form_data = (if request_method req = ''POST'' then Some (POST req) else None),
      form_initial = first_id, form_choices = choices\<rparr>"

definition add_type_view :: "site \<Rightarrow> parent_admin \<Rightarrow> request \<Rightarrow> error + response" where
  "add_type_view st adm req =
     (case get_child_type_choices st adm of
        Inl e \<Rightarrow> Inl e
      | Inr choices \<Rightarrow>
          (case choices of
             [] \<Rightarrow> Inl (IndexError ''list index out of range'')
           | (k, label) # rest \<Rightarrow>
               if length choices = 1
               then Inr (HttpResponseRedirect (''?ct_id='' @ str_int k @ extra_qs req))
               else
                 let form = add_type_form req k choices
                 in if is_valid form
                    then (case cleaned_ct_id form of
                            None \<Rightarrow> Inl (KeyError ''ct_id'')
                          | Some v \<Rightarrow>
                              Inr (HttpResponseRedirect (''?ct_id='' @ v @ extra_qs req)))
                    else Inr (AddTypeFormPage form)))"

definition add_view :: "site \<Rightarrow> parent_admin \<Rightarrow> request \<Rightarrow> error + response" where
  "add_view st adm req =
     (case request_ct_id st req of
        Inl e \<Rightarrow> Inl e
      | Inr ct_id \<Rightarrow>
          if ct_id = 0 then add_type_view st adm req
          else (case get_real_admin_by_ct st adm ct_id of
                  Inl e \<Rightarrow> Inl e
                | Inr real_admin \<Rightarrow> Inr (RealAdminView real_admin AddView)))"

definition change_view :: "site \<Rightarrow> parent_admin \<Rightarrow> request \<Rightarrow> int \<Rightarrow> error + response" where
  "change_view st adm req object_id =
     (case get_real_admin st adm object_id of
        Inl e \<Rightarrow> Inl e
      | Inr real_admin \<Rightarrow> Inr (RealAdminView real_admin (ChangeView object_id)))"

definition delete_view :: "site \<Rightarrow> parent_admin \<Rightarrow> request \<Rightarrow> int \<Rightarrow> error + response" where
  "delete_view st adm req object_id =
     (case get_real_admin st adm object_id of
        Inl e \<Rightarrow> Inl e
      | Inr real_admin \<Rightarrow> Inr (RealAdminView real_admin (DeleteView object_id)))"

definition subclass_view :: "site \<Rightarrow> parent_admin \<Rightarrow> request \<Rightarrow> string \<Rightarrow> error + response" where
  "subclass_view st adm req path =
     (case request_ct_id st req of
        Inl e \<Rightarrow> Inl e
      | Inr ct_id \<Rightarrow>
          if ct_id = 0
          then Inl (Http404 (''No ct_id parameter, unable to find admin subclass for path ''
                      @ quote @ path @ quote @ ''.''))
          else (case get_real_admin_by_ct st adm ct_id of
                  Inl e \<Rightarrow> Inl e
                | Inr real_admin \<Rightarrow>
                    (case admin_urls real_admin path of
                       None \<Rightarrow>
                         Inl (Http404 (''No match for path '' @ quote @ path @ quote
                                @ '' in admin subclass.''))
                     | Some view \<Rightarrow> Inr (RealAdminView real_admin (CustomView view)))))"

text \<open>The outcome of a view: it raises an error of a given kind.\<close>

fun is_Http404 :: "error \<Rightarrow> bool" where
  "is_Http404 (Http404 msg) = True"
| "is_Http404 _ = False"

fun is_PermissionDenied :: "error \<Rightarrow> bool" where
  "is_PermissionDenied (PermissionDenied msg) = True"
| "is_PermissionDenied _ = False"

fun raises :: "(error \<Rightarrow> bool) \<Rightarrow> error + 'a \<Rightarrow> bool" where
  "raises P (Inl e) = P e"
| "raises P (Inr x) = False"

text \<open>The identity tag that a view resolves: the \<^verbatim>\<open>ct_id\<close> of the query, when it is
  there and not zero, for the add view and the custom views; the tag stored with the
  object for the change and delete views.\<close>

definition tag_in_request :: "site \<Rightarrow> request \<Rightarrow> int \<Rightarrow> bool" where
  "tag_in_request st req ct_id = (request_ct_id st req = Inr ct_id \<and> ct_id \<noteq> 0)"

definition tag_of_object :: "site \<Rightarrow> parent_admin \<Rightarrow> int \<Rightarrow> int \<Rightarrow> bool" where
  "tag_of_object st adm object_id ct_id = (tables st (admin_model adm) object_id = Some ct_id)"

definition query_views_raise ::
  "(error \<Rightarrow> bool) \<Rightarrow> site \<Rightarrow> parent_admin \<Rightarrow> request \<Rightarrow> string \<Rightarrow> bool" where
  "query_views_raise P st adm req path =
     (raises P (add_view st adm req) \<and> raises P (subclass_view st adm req path))"

definition object_views_raise ::
  "(error \<Rightarrow> bool) \<Rightarrow> site \<Rightarrow> parent_admin \<Rightarrow> request \<Rightarrow> int \<Rightarrow> bool" where
  "object_views_raise P st adm req object_id =
     (raises P (change_view st adm req object_id)
      \<and> raises P (delete_view st adm req object_id))"

text \<open>The choices in the words of the specification: one for each registered variant, in
  the order of registration, with the id of its content type and its display name.\<close>

definition registry_choices :: "site \<Rightarrow> (pyclass \<times> child_admin) list \<Rightarrow> (int \<times> string) list" where
  "registry_choices st registry =
     map (\<lambda>(model, a). (get_for_model st model, verbose_name model)) registry"

section \<open>The sub-type administrative handler\<close>

text \<open>An entry of the \<^verbatim>\<open>'fields'\<close> of a fieldset: a field name, or a tuple of names that
  are shown on one line.\<close>

datatype field_entry = FieldName string | FieldRow "string list"

record fieldset =
  fs_title :: "string option"
  fs_fields :: "field_entry list"

text \<open>
  The attributes of a \<^verbatim>\<open>PolymorphicChildModelAdmin\<close> that the fieldsets are computed
  from. Two of them stand for Django's \<^verbatim>\<open>ModelAdmin\<close>: \<open>form_base_fields ex\<close> is
  \<^verbatim>\<open>get_form(request, obj, exclude=ex).base_fields.keys()\<close> and \<open>default_fieldsets\<close> is
  what \<^verbatim>\<open>ModelAdmin.get_fieldsets\<close> returns. \<open>base_fieldsets\<close> is a tuple, as the slices
  and the tuple concatenation of \<^verbatim>\<open>get_fieldsets\<close> need.
\<close>

record child_model_admin =
  declared_fieldsets :: "fieldset list option"
  base_fieldsets :: "fieldset list option"
  exclude :: "string list option"
  readonly_fields :: "string list"
  extra_fieldset_title :: string
  form_base_fields :: "string list \<Rightarrow> string list"
  default_fieldsets :: "fieldset list"

text \<open>\<^verbatim>\<open>subclass_fields.remove(field)\<close> inside \<^verbatim>\<open>try\<close>: the first occurrence goes; a field
  that is not in the list, as a tuple never is, leaves the list as it was.\<close>

fun remove_field :: "field_entry \<Rightarrow> string list \<Rightarrow> string list" where
  "remove_field (FieldName f) subclass_fields = remove1 f subclass_fields"
| "remove_field (FieldRow fs) subclass_fields = subclass_fields"

fun remove_fields :: "field_entry list \<Rightarrow> string list \<Rightarrow> string list" where
  "remove_fields [] subclass_fields = subclass_fields"
| "remove_fields (field # entries) subclass_fields =
     remove_fields entries (remove_field field subclass_fields)"

fun remove_fieldsets :: "fieldset list \<Rightarrow> string list \<Rightarrow> string list" where
  "remove_fieldsets [] subclass_fields = subclass_fields"
| "remove_fieldsets (fs # fss) subclass_fields =
     remove_fieldsets fss (remove_fields (fs_fields fs) subclass_fields)"

text \<open>The list the form is asked to leave out:
  \<^verbatim>\<open>list(self.exclude or [])\<close> extended by the read-only fields.\<close>

definition form_exclude :: "child_model_admin \<Rightarrow> string list" where
  "form_exclude adm =
     (case exclude adm of None \<Rightarrow> [] | Some ex \<Rightarrow> ex) @ readonly_fields adm"

definition get_subclass_fields :: "child_model_admin \<Rightarrow> error + string list" where
  "get_subclass_fields adm =
     (let subclass_fields = form_base_fields adm (form_exclude adm) @ readonly_fields adm
      in case base_fieldsets adm of
           None \<Rightarrow> Inl (TypeError ''NoneType object is not iterable'')
         | Some fss \<Rightarrow> Inr (remove_fieldsets fss subclass_fields))"

definition get_fieldsets :: "child_model_admin \<Rightarrow> error + fieldset list" where
  "get_fieldsets adm =
     (case base_fieldsets adm of
        None \<Rightarrow> Inr (default_fieldsets adm)
      | Some [] \<Rightarrow> Inr (default_fieldsets adm)
      | Some (first # others) \<Rightarrow>
          if declared_fieldsets adm \<noteq> None \<and> declared_fieldsets adm \<noteq> Some []
          then Inr (default_fieldsets adm)
          else
            (case get_subclass_fields adm of
               Inl e \<Rightarrow> Inl e
             | Inr other_fields \<Rightarrow>
                 if other_fields \<noteq> []
                 then Inr (first
                        # \<lparr>fs_title = Some (extra_fieldset_title adm),
                           fs_fields = map FieldName other_fields\<rparr>
                        # others)
                 else Inr (first # others)))"

text \<open>The fields present in the common fieldsets: every name they list, alone or in a
  row.\<close>

fun entry_names :: "field_entry \<Rightarrow> string list" where
  "entry_names (FieldName f) = [f]"
| "entry_names (FieldRow fs) = fs"

definition common_fields :: "fieldset list \<Rightarrow> string list" where
  "common_fields fss = concat (map (\<lambda>fs. concat (map entry_names (fs_fields fs))) fss)"

text \<open>Fieldsets that list every field alone, none in a row.\<close>

fun is_plain :: "field_entry \<Rightarrow> bool" where
  "is_plain (FieldName f) = True"
| "is_plain (FieldRow fs) = False"

definition all_plain :: "fieldset list \<Rightarrow> bool" where
  "all_plain fss = list_all (\<lambda>fs. list_all is_plain (fs_fields fs)) fss"

text \<open>The synthesized fields in the words of the specification: of a list of names, those
  that the common fieldsets do not list, in the order of the list.\<close>

definition subclass_only :: "fieldset list \<Rightarrow> string list \<Rightarrow> string list" where
  "subclass_only fss names = filter (\<lambda>f. \<not> List.member (common_fields fss) f) names"

section \<open>A small site: the example of the specification\<close>

definition BaseTreeNode :: pyclass where
  "BaseTreeNode = PyClass ''BaseTreeNode'' (mro PolymorphicMPTTModel) True None ''node''"

definition ArticlePage :: pyclass where
  "ArticlePage = PyClass ''ArticlePage'' (mro BaseTreeNode) True None ''article page''"

definition FilePage :: pyclass where
  "FilePage = PyClass ''FilePage'' (mro BaseTreeNode) True (Some False) ''file page''"

text \<open>Content types 11 (\<open>ArticlePage\<close>) and 12 (\<open>FilePage\<close>); row 1 is an article page and
  row 2 a file page, both in the table of \<open>BaseTreeNode\<close>. Rows 4, 5 and 6 carry the tag of
  a model outside the tree (14), of a model that was removed (13) and of no content type.\<close>

definition example_db :: database where
  "example_db =
     (\<lambda>Model. if Model = BaseTreeNode then [1 \<mapsto> 11, 2 \<mapsto> 12, 4 \<mapsto> 14, 5 \<mapsto> 13, 6 \<mapsto> 99]
              else Map.empty)"

definition new_article :: model_instance where
  "new_article = \<lparr>inst_class = ArticlePage, pk = 3, polymorphic_ctype = 11\<rparr>"

definition live_file_page :: model_instance where
  "live_file_page = \<lparr>inst_class = FilePage, pk = 2, polymorphic_ctype = 12\<rparr>"

definition auth_User :: pyclass where
  "auth_User = PyClass ''User'' [django_Model, py_object] False None ''user''"

definition article_admin :: child_admin where
  "article_admin =
     \<lparr>admin_name = ''ArticlePageAdmin'', admin_urls = [''preview/'' \<mapsto> ''preview_view'']\<rparr>"

definition file_admin :: child_admin where
  "file_admin = \<lparr>admin_name = ''FilePageAdmin'', admin_urls = Map.empty\<rparr>"

definition example_admin :: parent_admin where
  "example_admin =
     \<lparr>admin_model = BaseTreeNode, base_model = BaseTreeNode,
      initialized_child_models = Some [(ArticlePage, article_admin), (FilePage, file_admin)]\<rparr>"

definition single_admin :: parent_admin where
  "single_admin =
     \<lparr>admin_model = BaseTreeNode, base_model = BaseTreeNode,
      initialized_child_models = Some [(ArticlePage, article_admin)]\<rparr>"

definition example_site :: site where
  "example_site =
     \<lparr>content_types =
        [11 \<mapsto> \<lparr>ct_app_label = ''pages'', ct_model = ''articlepage'',
                 model_class = Some ArticlePage\<rparr>,
         12 \<mapsto> \<lparr>ct_app_label = ''pages'', ct_model = ''filepage'', model_class = Some FilePage\<rparr>,
         13 \<mapsto> \<lparr>ct_app_label = ''pages'', ct_model = ''oldpage'', model_class = None\<rparr>,
         14 \<mapsto> \<lparr>ct_app_label = ''auth'', ct_model = ''user'', model_class = Some auth_User\<rparr>],
      get_for_model =
        (\<lambda>C. if C = ArticlePage then 11 else if C = FilePage then 12 else 14),
      tables = example_db,
      int_of_text = [''0'' \<mapsto> 0, ''11'' \<mapsto> 11, ''12'' \<mapsto> 12, ''13'' \<mapsto> 13, ''14'' \<mapsto> 14, ''99'' \<mapsto> 99]\<rparr>"

definition get_request :: "(string \<rightharpoonup> string) \<Rightarrow> string \<Rightarrow> request" where
  "get_request params qs = \<lparr>request_method = ''GET'', GET = params, POST = Map.empty, QUERY_STRING = qs\<rparr>"

definition post_request :: "(string \<rightharpoonup> string) \<Rightarrow> request" where
  "post_request posted =
     \<lparr>request_method = ''POST'', GET = Map.empty, POST = posted, QUERY_STRING = []\<rparr>"

text \<open>A sub-admin of a page type with the fields title, slug, body, author, secret and
  created: title and slug are the common fields.\<close>

definition page_fields :: "string list" where
  "page_fields = [''title'', ''slug'', ''body'', ''author'', ''secret'', ''created'']"

definition example_child_admin :: child_model_admin where
  "example_child_admin =
     \<lparr>declared_fieldsets = None,
      base_fieldsets =
        Some [\<lparr>fs_title = None, fs_fields = [FieldName ''title'', FieldName ''slug'']\<rparr>,
              \<lparr>fs_title = Some ''Publication'', fs_fields = []\<rparr>],
      exclude = Some [''secret''],
      readonly_fields = [''created''],
      extra_fieldset_title = ''Contents'',
      form_base_fields = (\<lambda>ex. filter (\<lambda>f. \<not> List.member ex f) page_fields),
      default_fieldsets = [\<lparr>fs_title = None, fs_fields = map FieldName page_fields\<rparr>]\<rparr>"

text \<open>The same sub-admin with title and slug on one line of the base fieldset, followed by
  body.\<close>

definition row_child_admin :: child_model_admin where
  "row_child_admin =
     example_child_admin
       \<lparr>base_fieldsets :=
          Some [\<lparr>fs_title = None,
                 fs_fields = [FieldRow [''title'', ''slug''], FieldName ''body'']\<rparr>]\<rparr>"

section \<open>Properties of the identity resolver\<close>

lemma base_model_loop_find:
  "snd (base_model_loop Ms) =
     find (\<lambda>Model. by_composite_metaclass Model \<and> Model \<noteq> PolymorphicMPTTModel) Ms"
  by (induction Ms) (auto split: prod.splits)

text \<open>
  C5. For every class, the resolver returns the first class of the resolution order, read
  from the most basic class to the most derived one, that was made by the composite
  metaclass and is not \<open>PolymorphicMPTTModel\<close>; it returns \<open>None\<close> exactly when the order
  holds no such class.
\<close>

theorem get_base_polymorphic_model_first:
  "get_base_polymorphic_model ChildModel = first_composite_base ChildModel
   \<and> (get_base_polymorphic_model ChildModel = None) =
       (\<not> list_ex (\<lambda>Model. by_composite_metaclass Model \<and> Model \<noteq> PolymorphicMPTTModel)
            (mro ChildModel))"
  by (auto simp add: get_base_polymorphic_model_def first_composite_base_def
      base_model_loop_find find_None_iff list_ex_iff)

text \<open>In the example the resolver maps both page types, and the base itself, to
  \<open>BaseTreeNode\<close>, printing the classes from \<^verbatim>\<open>object\<close> up to it; on the abstract root it
  finds nothing.\<close>

lemma get_base_polymorphic_model_example:
  "get_base_polymorphic_model ArticlePage = Some BaseTreeNode
   \<and> get_base_polymorphic_model FilePage = Some BaseTreeNode
   \<and> get_base_polymorphic_model BaseTreeNode = Some BaseTreeNode
   \<and> get_base_polymorphic_model PolymorphicMPTTModel = None
   \<and> get_base_polymorphic_model_printed FilePage
       = [py_object, django_Model, PolymorphicModel, MPTTModel, PolymorphicMPTTModel,
          BaseTreeNode]"
  by (simp add: get_base_polymorphic_model_def get_base_polymorphic_model_printed_def mro_def
      ArticlePage_def FilePage_def BaseTreeNode_def PolymorphicMPTTModel_def MPTTModel_def
      PolymorphicModel_def django_Model_def py_object_def)

section \<open>Properties of the parent validation\<close>

lemmas site_defs = example_db_def new_article_def live_file_page_def ArticlePage_def FilePage_def
  BaseTreeNode_def PolymorphicMPTTModel_def MPTTModel_def PolymorphicModel_def django_Model_def
  py_object_def

text \<open>A live node is judged by the flag of its own class.\<close>

lemma validate_parent_live:
  "isinstance_PolymorphicMPTTModel obj \<Longrightarrow>
   class_can_have_children (inst_class obj) = Some b \<Longrightarrow>
   validate_parent db (PyInstance obj) child =
     (if b then Inr () else Inl (ValidationError no_children_message))"
  by (simp add: check_can_have_children_def can_have_children_def)

text \<open>A raw identifier is judged by the flag of the base model that was resolved from the
  class of the node being saved: the tag stored in the row plays no part.\<close>

lemma validate_parent_raw_id:
  "n \<noteq> 0 \<Longrightarrow> get_base_polymorphic_model (inst_class child) = Some B \<Longrightarrow>
   db B n = Some ct \<Longrightarrow> class_can_have_children B = Some b \<Longrightarrow>
   validate_parent db (PyInt n) child =
     (if b then Inr () else Inl (ValidationError no_children_message))"
  by (simp add: non_polymorphic_get_def check_can_have_children_def can_have_children_def)

text \<open>
  C1. In the example site \<open>FilePage\<close> has \<^verbatim>\<open>can_have_children = False\<close> and row 2 is a file
  page. Given as a live instance it is refused as a parent, with the message of the
  validation error; given as the raw primary key 2 it is accepted, because the row is read
  back as a \<open>BaseTreeNode\<close>, whose flag is the default.
\<close>

theorem raw_id_of_childless_variant_accepted:
  "class_can_have_children FilePage = Some False
   \<and> example_db BaseTreeNode 2 = Some 12
   \<and> validate_parent example_db (PyInstance live_file_page) new_article
       = Inl (ValidationError no_children_message)
   \<and> validate_parent example_db (PyInt 2) new_article = Inr ()"
  by (simp add: site_defs get_base_polymorphic_model_def mro_def
      non_polymorphic_get_def check_can_have_children_def can_have_children_def
      class_can_have_children_def isinstance_PolymorphicMPTTModel_def issubclass_def)

text \<open>
  C8. A parent value that is true in Python, is not an integer and is not an instance of
  \<open>PolymorphicMPTTModel\<close> makes the validation, and the clean around it, raise
  \<^verbatim>\<open>ValueError("Unknown parent value")\<close>.
\<close>

theorem unknown_parent_value:
  assumes "truthy parent" and "\<not> isinstance_int parent" and "\<not> isinstance_node parent"
  shows "validate_parent db parent child = Inl (ValueError ''Unknown parent value'')
     \<and> (super_clean v child = Inr parent \<longrightarrow>
          clean super_clean db v child = Inl (ValueError ''Unknown parent value''))"
  using assms by (cases parent) (simp_all add: clean_def)

theorem unknown_parent_value_witness:
  "truthy (PyStr ''node-7'') \<and> \<not> isinstance_int (PyStr ''node-7'')
   \<and> \<not> isinstance_node (PyStr ''node-7'')
   \<and> (\<lambda>v m. Inr v) (PyStr ''node-7'') new_article = Inr (PyStr ''node-7'')
   \<and> validate_parent example_db (PyStr ''node-7'') new_article
       = Inl (ValueError ''Unknown parent value'')
   \<and> clean (\<lambda>v m. Inr v) example_db (PyStr ''node-7'') new_article
       = Inl (ValueError ''Unknown parent value'')"
  using unknown_parent_value [of "PyStr ''node-7''" example_db new_article "\<lambda>v m. Inr v"
      "PyStr ''node-7''"]
  by simp

text \<open>
  C9. A parent value that is false in Python (\<^verbatim>\<open>None\<close>, \<^verbatim>\<open>0\<close>) is accepted without a look
  at the database or at any class, and the clean returns the value that the clean of the
  wrapped field returned.
\<close>

theorem empty_parent_accepted:
  assumes "\<not> truthy parent"
  shows "validate_parent db parent child = Inr ()
     \<and> (super_clean v child = Inr parent \<longrightarrow> clean super_clean db v child = Inr parent)"
  using assms by (simp add: clean_def)

theorem empty_parent_accepted_witness:
  "\<not> truthy PyNone \<and> (\<lambda>v m. Inr v) PyNone new_article = Inr PyNone
   \<and> validate_parent example_db PyNone new_article = Inr ()
   \<and> clean (\<lambda>v m. Inr v) example_db PyNone new_article = Inr PyNone"
  using empty_parent_accepted [of PyNone example_db new_article "\<lambda>v m. Inr v" PyNone]
  by simp





section \<open>Properties of the table name\<close>

lemma update_table_name_cases:
  "update_table_name meta =
     (if prefix (app_label meta @ ''_'') (db_table meta) \<and> abstract meta \<noteq> Some True
      then meta\<lparr>db_table := ''nodetype_'' @ app_label meta @ ''_''
                  @ drop (Suc (length (app_label meta))) (db_table meta)\<rparr>
      else meta)"
  by (cases "abstract meta") (auto simp: update_table_name_def table_name_template_def Let_def)

lemma new_default_renamed:
  assumes "list_ex by_composite_metaclass bases" and "abstract meta \<noteq> Some True"
    and "db_table meta = default_db_table (app_label meta) model_name"
  shows "db_table (PolymorphicMPTTModelBase_new bases meta)
     = table_name_template (app_label meta) model_name"
  using assms
  by (simp add: PolymorphicMPTTModelBase_new_def update_table_name_cases default_db_table_def
      table_name_template_def)

lemma new_unchanged:
  assumes "\<not> list_ex by_composite_metaclass bases \<or> abstract meta = Some True
     \<or> \<not> prefix (app_label meta @ ''_'') (db_table meta)"
  shows "PolymorphicMPTTModelBase_new bases meta = meta"
  using assms by (auto simp: PolymorphicMPTTModelBase_new_def update_table_name_cases)

lemma new_root_unchanged:
  "PolymorphicMPTTModelBase_new [MPTTModel, PolymorphicModel] meta = meta"
  by (simp add: PolymorphicMPTTModelBase_new_def MPTTModel_def PolymorphicModel_def)

text \<open>
  C3. A concrete class of the app \<^verbatim>\<open>pages\<close> that declares the table name
  \<^verbatim>\<open>pages_custom\<close>, which is not the default of any of its models, has its table renamed
  to \<^verbatim>\<open>nodetype_pages_custom\<close>: the test is on the prefix \<^verbatim>\<open>pages_\<close> only.
\<close>

theorem customized_table_name_rewritten:
  "''pages_custom'' \<noteq> default_db_table ''pages'' ''articlepage''
   \<and> PolymorphicMPTTModelBase_new [BaseTreeNode]
        \<lparr>app_label = ''pages'', db_table = ''pages_custom'', abstract = Some False\<rparr>
       = \<lparr>app_label = ''pages'', db_table = ''nodetype_pages_custom'', abstract = Some False\<rparr>"
  by (simp add: PolymorphicMPTTModelBase_new_def update_table_name_def table_name_template_def
      default_db_table_def BaseTreeNode_def)

lemma nodetype_prefix:
  assumes "prefix (a @ ''_'') (''nodetype_'' @ r)"
  shows "prefix ''nodetype'' a"
proof -
  from assms have "prefix (a @ ''_'') ''nodetype_''
      \<or> (\<exists>us. a @ ''_'' = ''nodetype_'' @ us \<and> prefix us r)"
    by (simp only: prefix_append)
  then consider (short) "prefix (a @ ''_'') ''nodetype_''"
    | (long) us where "a @ ''_'' = ''nodetype_'' @ us"
    by blast
  then show ?thesis
  proof cases
    case short
    then have "a @ ''_'' \<in> set (prefixes ''nodetype_'')"
      by (simp only: in_set_prefixes)
    then show ?thesis
      by (auto simp: snoc_eq_iff_butlast)
  next
    case long
    show ?thesis
    proof (cases us rule: rev_cases)
      case Nil
      with long show ?thesis by (auto simp: snoc_eq_iff_butlast)
    next
      case (snoc vs v)
      with long have "a = ''nodetype_'' @ vs" by simp
      then show ?thesis by simp
    qed
  qed
qed

text \<open>
  C4. In the app \<^verbatim>\<open>nodetype\<close> the default table of the model \<^verbatim>\<open>page\<close> is \<^verbatim>\<open>nodetype_page\<close>
  and its normalized name is \<^verbatim>\<open>nodetype_nodetype_page\<close>. A concrete class that declares
  the normalized name has it rewritten once more, to \<^verbatim>\<open>nodetype_nodetype_nodetype_page\<close>:
  the name starts with \<^verbatim>\<open>nodetype_\<close>, which is all the metaclass tests.
\<close>

theorem normalized_name_rewritten_again:
  "default_db_table ''nodetype'' ''page'' = ''nodetype_page''
   \<and> table_name_template ''nodetype'' ''page'' = ''nodetype_nodetype_page''
   \<and> PolymorphicMPTTModelBase_new [BaseTreeNode]
        \<lparr>app_label = ''nodetype'', db_table = ''nodetype_nodetype_page'', abstract = Some False\<rparr>
     = \<lparr>app_label = ''nodetype'', db_table = ''nodetype_nodetype_nodetype_page'',
        abstract = Some False\<rparr>"
  by (simp add: PolymorphicMPTTModelBase_new_def update_table_name_def table_name_template_def
      default_db_table_def BaseTreeNode_def)

text \<open>For an app label that does not begin with \<^verbatim>\<open>nodetype\<close> the normalized name does not
  start with the app label and an underscore, and the rewrite leaves it as it is.\<close>

lemma normalized_name_kept:
  assumes "\<not> prefix ''nodetype'' app"
  shows "update_table_name
        \<lparr>app_label = app, db_table = table_name_template app model_name, abstract = ab\<rparr>
      = \<lparr>app_label = app, db_table = table_name_template app model_name, abstract = ab\<rparr>"
proof -
  have "\<not> prefix (app @ ''_'') (table_name_template app model_name)"
    using assms nodetype_prefix [of app "app @ ''_'' @ model_name"]
    by (auto simp: table_name_template_def)
  then show ?thesis
    by (simp add: update_table_name_cases)
qed

section \<open>Properties of the administrative router\<close>

lemmas class_defs = ArticlePage_def FilePage_def BaseTreeNode_def PolymorphicMPTTModel_def
  MPTTModel_def PolymorphicModel_def django_Model_def py_object_def

lemmas admin_defs = example_site_def example_admin_def single_admin_def article_admin_def
  file_admin_def auth_User_def get_request_def post_request_def

text \<open>An error of the resolution is the error of every view that resolves the tag: no view
  of a real admin is called.\<close>

lemma resolution_error_reaches_views:
  assumes "get_real_admin_by_ct st adm ct_id = Inl e" and "P e"
  shows "(tag_in_request st req ct_id \<longrightarrow> query_views_raise P st adm req path)
     \<and> (tag_of_object st adm object_id ct_id
          \<longrightarrow> object_views_raise P st adm req object_id)"
  using assms
  by (simp add: query_views_raise_def object_views_raise_def tag_in_request_def
      tag_of_object_def add_view_def subclass_view_def change_view_def delete_view_def
      get_real_admin_def)

text \<open>A content type that \<open>get_for_id\<close> returns has a model class: the test of
  \<^verbatim>\<open>ct.model_class()\<close> in the resolution never fails.\<close>

lemma get_for_id_has_model_class:
  "get_for_id st ct_id = Inr ct \<Longrightarrow> \<exists>C. model_class ct = Some C"
  by (auto simp: get_for_id_def split: option.splits)

lemma not_subclass_denied:
  assumes "content_types st ct_id = Some ct" and "model_class ct = Some C"
    and "\<not> issubclass C (base_model adm)"
  shows "\<exists>msg. get_real_admin_by_ct st adm ct_id = Inl (PermissionDenied msg)"
  using assms by (simp add: get_real_admin_by_ct_def get_for_id_def)

lemma unknown_tag_not_found:
  assumes "content_types st ct_id = None"
  shows "\<exists>msg. get_real_admin_by_ct st adm ct_id = Inl (Http404 msg)"
  using assms by (simp add: get_real_admin_by_ct_def get_for_id_def)

lemma removed_model_attribute_error:
  assumes "content_types st ct_id = Some ct" and "model_class ct = None"
  shows "\<exists>msg. get_real_admin_by_ct st adm ct_id = Inl (AttributeError msg)"
  using assms by (simp add: get_real_admin_by_ct_def get_for_id_def)

text \<open>The two halves of the resolution that do what is meant: a model class outside the
  base model is denied, and a tag without a content type is not found, in the resolution
  and in every view that resolves the tag.\<close>

lemma resolution_denied_or_not_found:
  "(content_types st ct_id = Some ct \<and> model_class ct = Some C
      \<and> \<not> issubclass C (base_model adm)
      \<longrightarrow> raises is_PermissionDenied (get_real_admin_by_ct st adm ct_id)
        \<and> (tag_in_request st req ct_id
             \<longrightarrow> query_views_raise is_PermissionDenied st adm req path)
        \<and> (tag_of_object st adm object_id ct_id
             \<longrightarrow> object_views_raise is_PermissionDenied st adm req object_id))
   \<and> (content_types st ct_id = None
      \<longrightarrow> raises is_Http404 (get_real_admin_by_ct st adm ct_id)
        \<and> (tag_in_request st req ct_id \<longrightarrow> query_views_raise is_Http404 st adm req path)
        \<and> (tag_of_object st adm object_id ct_id
             \<longrightarrow> object_views_raise is_Http404 st adm req object_id))"
proof -
  have denied: "raises is_PermissionDenied (get_real_admin_by_ct st adm ct_id)
        \<and> (tag_in_request st req ct_id
             \<longrightarrow> query_views_raise is_PermissionDenied st adm req path)
        \<and> (tag_of_object st adm object_id ct_id
             \<longrightarrow> object_views_raise is_PermissionDenied st adm req object_id)"
    if "content_types st ct_id = Some ct" "model_class ct = Some C"
      "\<not> issubclass C (base_model adm)"
  proof -
    from not_subclass_denied [OF that] obtain msg
      where r: "get_real_admin_by_ct st adm ct_id = Inl (PermissionDenied msg)" ..
    from r resolution_error_reaches_views [where P = is_PermissionDenied and req = req
        and path = path and object_id = object_id, OF r]
    show ?thesis by simp
  qed
  have missing: "raises is_Http404 (get_real_admin_by_ct st adm ct_id)
        \<and> (tag_in_request st req ct_id \<longrightarrow> query_views_raise is_Http404 st adm req path)
        \<and> (tag_of_object st adm object_id ct_id
             \<longrightarrow> object_views_raise is_Http404 st adm req object_id)"
    if "content_types st ct_id = None"
  proof -
    from unknown_tag_not_found [OF that] obtain msg
      where r: "get_real_admin_by_ct st adm ct_id = Inl (Http404 msg)" ..
    from r resolution_error_reaches_views [where P = is_Http404 and req = req
        and path = path and object_id = object_id, OF r]
    show ?thesis by simp
  qed
  from denied missing show ?thesis by blast
qed

lemma resolution_denied_or_not_found_example:
  "get_real_admin_by_ct example_site example_admin 11 = Inr article_admin
   \<and> raises is_PermissionDenied (get_real_admin_by_ct example_site example_admin 14)
   \<and> raises is_PermissionDenied
        (add_view example_site example_admin (get_request [''ct_id'' \<mapsto> ''14''] ''ct_id=14''))
   \<and> raises is_PermissionDenied
        (change_view example_site example_admin (get_request Map.empty []) 4)
   \<and> raises is_Http404 (get_real_admin_by_ct example_site example_admin 99)
   \<and> raises is_Http404
        (delete_view example_site example_admin (get_request Map.empty []) 6)"
  by (simp add: admin_defs class_defs example_db_def mro_def issubclass_def
      get_real_admin_by_ct_def get_for_id_def get_admin_for_model_def get_real_admin_def
      add_view_def change_view_def delete_view_def request_ct_id_def)

text \<open>
  C2. In the example site, content type 13 is the row of a model that was removed from
  the code and object 5 carries that tag. Resolving the tag raises \<^verbatim>\<open>AttributeError\<close>,
  out of \<^verbatim>\<open>get_for_id\<close>, and not \<^verbatim>\<open>Http404\<close>: the test of \<^verbatim>\<open>ct.model_class()\<close> that would
  raise it is never reached. The add, custom, change and delete views raise the same
  error. A \<^verbatim>\<open>ct_id\<close> that is not a number makes the add view and the custom views raise
  \<^verbatim>\<open>ValueError\<close>, out of \<^verbatim>\<open>int()\<close>.
\<close>

theorem removed_model_not_http404:
  "content_types example_site 13
     = Some \<lparr>ct_app_label = ''pages'', ct_model = ''oldpage'', model_class = None\<rparr>
   \<and> get_real_admin_by_ct example_site example_admin 13
     = Inl (AttributeError ''NoneType object has no attribute _meta'')
   \<and> add_view example_site example_admin (get_request [''ct_id'' \<mapsto> ''13''] ''ct_id=13'')
     = Inl (AttributeError ''NoneType object has no attribute _meta'')
   \<and> subclass_view example_site example_admin
        (get_request [''ct_id'' \<mapsto> ''13''] ''ct_id=13'') ''preview/''
     = Inl (AttributeError ''NoneType object has no attribute _meta'')
   \<and> change_view example_site example_admin (get_request Map.empty []) 5
     = Inl (AttributeError ''NoneType object has no attribute _meta'')
   \<and> delete_view example_site example_admin (get_request Map.empty []) 5
     = Inl (AttributeError ''NoneType object has no attribute _meta'')
   \<and> add_view example_site example_admin (get_request [''ct_id'' \<mapsto> ''abc''] ''ct_id=abc'')
     = Inl (ValueError ''invalid literal for int() with base 10'')
   \<and> subclass_view example_site example_admin
        (get_request [''ct_id'' \<mapsto> ''abc''] ''ct_id=abc'') ''preview/''
     = Inl (ValueError ''invalid literal for int() with base 10'')"
  by (simp add: admin_defs example_db_def get_real_admin_by_ct_def get_for_id_def
      get_real_admin_def add_view_def subclass_view_def change_view_def delete_view_def
      request_ct_id_def)

lemma choices_of_registry:
  "initialized_child_models adm = Some registry \<Longrightarrow>
   get_child_type_choices st adm = Inr (registry_choices st registry)"
  by (simp add: get_child_type_choices_def get_child_model_classes_def registry_choices_def
      case_prod_unfold comp_def)

lemma add_view_without_ct_id:
  "request_ct_id st req = Inr 0 \<Longrightarrow> add_view st adm req = add_type_view st adm req"
  by (simp add: add_view_def)

lemma request_ct_id_absent_or_zero:
  "GET req ''ct_id'' = None \<or> (GET req ''ct_id'' = Some shown \<and> int_of_text st shown = Some 0)
   \<Longrightarrow> request_ct_id st req = Inr 0"
  by (auto simp: request_ct_id_def)

lemma add_type_view_single:
  "initialized_child_models adm = Some [(model, a)] \<Longrightarrow>
   add_type_view st adm req =
     Inr (HttpResponseRedirect (''?ct_id='' @ str_int (get_for_model st model) @ extra_qs req))"
  by (simp add: add_type_view_def choices_of_registry registry_choices_def)

lemma add_type_view_several:
  assumes "initialized_child_models adm = Some ((model, a) # (model', a') # others)"
  shows "add_type_view st adm req =
     (let form = add_type_form req (get_for_model st model)
                   (registry_choices st ((model, a) # (model', a') # others))
      in case cleaned_ct_id form of
           None \<Rightarrow> Inr (AddTypeFormPage form)
         | Some v \<Rightarrow> Inr (HttpResponseRedirect (''?ct_id='' @ v @ extra_qs req)))"
  using assms
  by (simp add: add_type_view_def choices_of_registry registry_choices_def is_valid_def Let_def
      split: option.splits)

lemma unbound_form_not_valid:
  "request_method req \<noteq> ''POST'' \<Longrightarrow> cleaned_ct_id (add_type_form req k choices) = None"
  by (simp add: cleaned_ct_id_def add_type_form_def)

text \<open>
  C6, as stated, fails for a \<^verbatim>\<open>POST\<close> that submits the choice form: with two variants
  registered and no \<^verbatim>\<open>ct_id\<close> in the query, the posted choice 12 is valid and the answer is
  a redirect, not a rendered form.
\<close>

theorem valid_post_redirects:
  "get_child_model_classes example_admin = Inr [ArticlePage, FilePage]
   \<and> GET (post_request [''ct_id'' \<mapsto> ''12'']) ''ct_id'' = None
   \<and> add_view example_site example_admin (post_request [''ct_id'' \<mapsto> ''12''])
       = Inr (HttpResponseRedirect ''?ct_id=12'')"
  by (simp add: admin_defs class_defs mro_def get_child_model_classes_def add_view_def
      request_ct_id_def add_type_view_def get_child_type_choices_def add_type_form_def
      is_valid_def cleaned_ct_id_def str_int_def str_nat.simps extra_qs_def)

text \<open>
  C6, amended. When the \<^verbatim>\<open>ct_id\<close> of the query is absent or reads as 0, the add view is
  the type-choice view. There, with exactly one registered variant the answer is a
  redirect to \<^verbatim>\<open>?ct_id=\<close> followed by the id of its content type and the query string; with
  two or more, a form is built whose choices are exactly the registered variants (id of
  the content type, display name), and the form is rendered unless the request posts a
  valid choice, in which case the answer is a redirect with the posted \<^verbatim>\<open>ct_id\<close>. A
  request that is not a \<^verbatim>\<open>POST\<close> always gets the rendered form.
\<close>

theorem add_view_type_choice:
  "(GET req ''ct_id'' = None \<or> (GET req ''ct_id'' = Some shown \<and> int_of_text st shown = Some 0)
      \<longrightarrow> add_view st adm req = add_type_view st adm req)
   \<and> (initialized_child_models adm = Some [(model, a)]
      \<longrightarrow> add_type_view st adm req =
          Inr (HttpResponseRedirect
                (''?ct_id='' @ str_int (get_for_model st model) @ extra_qs req)))
   \<and> (initialized_child_models adm = Some ((model, a) # (model', a') # others)
      \<longrightarrow> (let form = add_type_form req (get_for_model st model)
                       (registry_choices st ((model, a) # (model', a') # others))
           in form_choices form = registry_choices st ((model, a) # (model', a') # others)
              \<and> add_type_view st adm req =
                  (case cleaned_ct_id form of
                     None \<Rightarrow> Inr (AddTypeFormPage form)
                   | Some v \<Rightarrow> Inr (HttpResponseRedirect (''?ct_id='' @ v @ extra_qs req)))
              \<and> (request_method req \<noteq> ''POST'' \<longrightarrow>
                   add_type_view st adm req = Inr (AddTypeFormPage form))))"
proof (intro conjI impI)
  assume "GET req ''ct_id'' = None
    \<or> (GET req ''ct_id'' = Some shown \<and> int_of_text st shown = Some 0)"
  then show "add_view st adm req = add_type_view st adm req"
    by (intro add_view_without_ct_id request_ct_id_absent_or_zero)
next
  assume "initialized_child_models adm = Some [(model, a)]"
  then show "add_type_view st adm req =
      Inr (HttpResponseRedirect (''?ct_id='' @ str_int (get_for_model st model) @ extra_qs req))"
    by (rule add_type_view_single)
next
  assume reg: "initialized_child_models adm = Some ((model, a) # (model', a') # others)"
  show "let form = add_type_form req (get_for_model st model)
                       (registry_choices st ((model, a) # (model', a') # others))
           in form_choices form = registry_choices st ((model, a) # (model', a') # others)
              \<and> add_type_view st adm req =
                  (case cleaned_ct_id form of
                     None \<Rightarrow> Inr (AddTypeFormPage form)
                   | Some v \<Rightarrow> Inr (HttpResponseRedirect (''?ct_id='' @ v @ extra_qs req)))
              \<and> (request_method req \<noteq> ''POST'' \<longrightarrow>
                   add_type_view st adm req = Inr (AddTypeFormPage form))"
    using add_type_view_several [OF reg, of st req]
      unbound_form_not_valid [of req "get_for_model st model"
        "registry_choices st ((model, a) # (model', a') # others)"]
    by (simp add: Let_def add_type_form_def)
qed

theorem add_view_type_choice_witness:
  "add_view example_site example_admin (get_request Map.empty [])
     = Inr (AddTypeFormPage
         \<lparr>form_data = None, form_initial = 11,
          form_choices = [(11, ''article page''), (12, ''file page'')]\<rparr>)
   \<and> add_view example_site single_admin (get_request [''ct_id'' \<mapsto> ''0''] ''ct_id=0'')
     = Inr (HttpResponseRedirect ''?ct_id=11&ct_id=0'')"
proof -
  have absent: "GET (get_request Map.empty []) ''ct_id'' = None"
    by (simp add: get_request_def)
  have zero: "GET (get_request [''ct_id'' \<mapsto> ''0''] ''ct_id=0'') ''ct_id'' = Some ''0''
      \<and> int_of_text example_site ''0'' = Some 0"
    by (simp add: get_request_def example_site_def)
  have two: "initialized_child_models example_admin
      = Some ((ArticlePage, article_admin) # (FilePage, file_admin) # [])"
    by (simp add: example_admin_def)
  have one: "initialized_child_models single_admin = Some [(ArticlePage, article_admin)]"
    by (simp add: single_admin_def)
  have get: "request_method (get_request Map.empty []) \<noteq> ''POST''"
    by (simp add: get_request_def)
  have ids: "get_for_model example_site ArticlePage = 11
      \<and> get_for_model example_site FilePage = 12"
    by (simp add: example_site_def class_defs mro_def)
  have names: "verbose_name ArticlePage = ''article page''
      \<and> verbose_name FilePage = ''file page''"
    by (simp add: class_defs)
  have eleven: "str_int 11 = ''11''"
    by (simp add: str_int_def str_nat.simps)
  have qs: "extra_qs (get_request [''ct_id'' \<mapsto> ''0''] ''ct_id=0'') = ''&ct_id=0''"
    by (simp add: extra_qs_def get_request_def)
  from absent two get ids names
    add_view_type_choice [of "get_request Map.empty []" "''0''" example_site example_admin
      ArticlePage article_admin FilePage file_admin "[]"]
  have first: "add_view example_site example_admin (get_request Map.empty [])
     = Inr (AddTypeFormPage
         \<lparr>form_data = None, form_initial = 11,
          form_choices = [(11, ''article page''), (12, ''file page'')]\<rparr>)"
    by (simp add: Let_def registry_choices_def add_type_form_def get_request_def
        cleaned_ct_id_def)
  from zero one ids eleven qs
    add_view_type_choice [of "get_request [''ct_id'' \<mapsto> ''0''] ''ct_id=0''" "''0''"
      example_site single_admin ArticlePage article_admin FilePage file_admin "[]"]
  have second: "add_view example_site single_admin
       (get_request [''ct_id'' \<mapsto> ''0''] ''ct_id=0'')
     = Inr (HttpResponseRedirect ''?ct_id=11&ct_id=0'')"
    by simp
  from first second show ?thesis by simp
qed

section \<open>Properties of the fieldsets\<close>

text \<open>On a list without repetitions, and for entries that are all plain names, removing
  the first occurrence of each common field is filtering the common fields out.\<close>

lemma remove_fields_distinct:
  "distinct xs \<Longrightarrow> list_all is_plain es \<Longrightarrow>
   remove_fields es xs = filter (\<lambda>f. f \<notin> set (concat (map entry_names es))) xs"
proof (induction es arbitrary: xs)
  case Nil
  then show ?case by simp
next
  case (Cons e es)
  show ?case
  proof (cases e)
    case (FieldName f)
    from Cons.prems have "distinct (remove1 f xs)" and "list_all is_plain es" by simp_all
    from Cons.IH [OF this] Cons.prems FieldName show ?thesis
      by (auto simp add: distinct_remove1_removeAll removeAll_filter_not_eq intro: filter_cong)
  next
    case (FieldRow fs)
    with Cons.prems show ?thesis by simp
  qed
qed

lemma remove_fieldsets_distinct:
  "distinct xs \<Longrightarrow> all_plain fss \<Longrightarrow>
   remove_fieldsets fss xs = filter (\<lambda>f. f \<notin> set (common_fields fss)) xs"
proof (induction fss arbitrary: xs)
  case Nil
  then show ?case by (simp add: common_fields_def)
next
  case (Cons fs fss)
  from Cons.prems have plain: "list_all is_plain (fs_fields fs)" and rest: "all_plain fss"
    by (simp_all add: all_plain_def)
  have "distinct (remove_fields (fs_fields fs) xs)"
    using Cons.prems(1) plain by (simp add: remove_fields_distinct)
  from Cons.IH [OF this rest] Cons.prems(1) plain show ?case
    by (auto simp add: remove_fields_distinct common_fields_def intro: filter_cong)
qed

lemma remove_fieldsets_subclass_only:
  "distinct xs \<Longrightarrow> all_plain fss \<Longrightarrow> remove_fieldsets fss xs = subclass_only fss xs"
  by (simp add: remove_fieldsets_distinct subclass_only_def)

text \<open>A row of the base fieldsets removes nothing: its names stay among the subclass
  fields.\<close>

lemma remove_fields_row:
  "remove_fields (FieldRow fs # es) xs = remove_fields es xs"
  by simp

text \<open>
  When the base fieldsets list every field alone, the code computes what is meant. Let the
  subclass admin declare no fieldsets, and let the form, asked to leave out
  \<open>form_exclude\<close>, have the fields \<open>keys\<close> (without repetition, none of them read-only; the
  read-only list without repetition). Then the subclass fields are the fields of the form
  that are not common, in the order of the form, followed by the read-only fields that are
  not common, and they make up a fieldset right after the first base fieldset.
\<close>

lemma plain_fieldsets_synthesized:
  assumes declared: "declared_fieldsets adm = None \<or> declared_fieldsets adm = Some []"
    and base: "base_fieldsets adm = Some (first # others)"
    and plain: "all_plain (first # others)"
    and keys: "form_base_fields adm (form_exclude adm) = keys"
    and dist: "distinct keys" "distinct (readonly_fields adm)"
    and apart: "set keys \<inter> set (readonly_fields adm) = {}"
  shows "get_subclass_fields adm
       = Inr (subclass_only (first # others) keys
              @ subclass_only (first # others) (readonly_fields adm))
     \<and> get_fieldsets adm
       = Inr (if subclass_only (first # others) (keys @ readonly_fields adm) = []
              then first # others
              else first
                # \<lparr>fs_title = Some (extra_fieldset_title adm),
                   fs_fields = map FieldName
                     (subclass_only (first # others) keys
                      @ subclass_only (first # others) (readonly_fields adm))\<rparr>
                # others)"
proof -
  from dist apart have "distinct (keys @ readonly_fields adm)"
    by simp
  then have removed: "remove_fieldsets (first # others) (keys @ readonly_fields adm)
      = subclass_only (first # others) (keys @ readonly_fields adm)"
    using plain by (rule remove_fieldsets_subclass_only)
  have split: "subclass_only (first # others) (keys @ readonly_fields adm)
      = subclass_only (first # others) keys
        @ subclass_only (first # others) (readonly_fields adm)"
    by (simp add: subclass_only_def)
  have sub: "get_subclass_fields adm
      = Inr (subclass_only (first # others) keys
             @ subclass_only (first # others) (readonly_fields adm))"
    using base keys removed split by (simp add: get_subclass_fields_def)
  have sets: "get_fieldsets adm
       = Inr (if subclass_only (first # others) (keys @ readonly_fields adm) = []
              then first # others
              else first
                # \<lparr>fs_title = Some (extra_fieldset_title adm),
                   fs_fields = map FieldName
                     (subclass_only (first # others) keys
                      @ subclass_only (first # others) (readonly_fields adm))\<rparr>
                # others)"
    using declared base sub split by (auto simp: get_fieldsets_def)
  from sub sets show ?thesis by simp
qed

lemma plain_fieldsets_example:
  "get_subclass_fields example_child_admin = Inr [''body'', ''author'', ''created'']
   \<and> get_fieldsets example_child_admin
     = Inr [\<lparr>fs_title = None, fs_fields = [FieldName ''title'', FieldName ''slug'']\<rparr>,
            \<lparr>fs_title = Some ''Contents'',
             fs_fields = [FieldName ''body'', FieldName ''author'', FieldName ''created'']\<rparr>,
            \<lparr>fs_title = Some ''Publication'', fs_fields = []\<rparr>]"
  by (simp add: get_fieldsets_def get_subclass_fields_def form_exclude_def
      example_child_admin_def page_fields_def)

text \<open>
  C7. In the sub-admin whose base fieldset shows title and slug on one line, followed by
  body, the common fieldsets cover title, slug and body, and the form has the fields
  title, slug, body and author. The fields that are not common are author and the
  read-only field created; the code synthesizes a fieldset with title, slug, author and
  created, because \<^verbatim>\<open>subclass_fields.remove\<close> is called with the row, which is not in the
  list, and title and slug are never removed.
\<close>

theorem row_fields_synthesized_again:
  "common_fields
       [\<lparr>fs_title = None, fs_fields = [FieldRow [''title'', ''slug''], FieldName ''body'']\<rparr>]
     = [''title'', ''slug'', ''body'']
   \<and> declared_fieldsets row_child_admin = None
   \<and> form_base_fields row_child_admin (form_exclude row_child_admin)
     = [''title'', ''slug'', ''body'', ''author'']
   \<and> subclass_only
       [\<lparr>fs_title = None, fs_fields = [FieldRow [''title'', ''slug''], FieldName ''body'']\<rparr>]
       ([''title'', ''slug'', ''body'', ''author''] @ readonly_fields row_child_admin)
     = [''author'', ''created'']
   \<and> get_subclass_fields row_child_admin = Inr [''title'', ''slug'', ''author'', ''created'']
   \<and> get_fieldsets row_child_admin
     = Inr [\<lparr>fs_title = None,
             fs_fields = [FieldRow [''title'', ''slug''], FieldName ''body'']\<rparr>,
            \<lparr>fs_title = Some ''Contents'',
             fs_fields = [FieldName ''title'', FieldName ''slug'', FieldName ''author'',
                          FieldName ''created'']\<rparr>]"
  by (simp add: get_fieldsets_def get_subclass_fields_def form_exclude_def subclass_only_def
      common_fields_def row_child_admin_def example_child_admin_def page_fields_def)

end
